theory Spec2Isabelle
  imports Main
begin

section \<open>The dictionary store of StoryKeeper (db.py)\<close>

text \<open>
  The class \<open>DictionaryDB\<close> keeps three SQLite tables behind one connection. The
  embedding below follows db.py statement by statement.

  \<^item> A value bound to a parameter of an entry statement or read from a column of
    \<open>dictionary\<close> is a \<open>pyval\<close>: a Python \<open>str\<close> or \<open>int\<close>. \<open>None\<close>, floats and
    containers are outside the model, and so are the conversions SQLite applies when a
    value does not have the declared type of its column. Context names and settings are
    \<open>str\<close>, as annotated in db.py.
  \<^item> A table is the list of its rows in rowid order. The \<open>id\<close> column is an
    \<open>AUTOINCREMENT\<close> key that no statement of db.py reads or supplies, so it is kept
    only as the position in the list: an inserted row goes to the end, an updated row
    keeps its place.
  \<^item> Strings are lists of \<open>char\<close>; \<open>str.lower\<close> is modelled on the ASCII letters.
  \<^item> \<open>with self.conn:\<close> commits when its body ends and rolls back when the body
    raises; every method returns the error, if any, together with the store it leaves.
  \<^item> The tables always have all their columns: \<open>_create_tables\<close> and
    \<open>_migrate_schema\<close> change no row of such a store.
\<close>

subsection \<open>Values, rows and the store\<close>

datatype pyval = PStr string | PInt int

datatype error = KeyError string | ValueError | IntegrityError

text \<open>The six data columns of table \<open>dictionary\<close> (db.py, lines 30-39).\<close>

record entry_row =
  word :: pyval
  category :: pyval
  part_of_speech :: pyval
  definition_col :: pyval
  context_hint :: pyval
  sense_number :: pyval

text \<open>
  The store: \<open>dictionary\<close>, the \<open>name\<close> column of \<open>contexts\<close>, and the key/value rows
  of \<open>settings\<close>.
\<close>

record store =
  dictionary :: "entry_row list"
  contexts :: "string list"
  settings :: "(string \<times> string) list"

type_synonym 'a result = "(error + 'a) \<times> store"

subsection \<open>Python and SQLite primitives\<close>

text \<open>\<open>str.lower()\<close> on ASCII text.\<close>

definition lower_char :: "char \<Rightarrow> char" where
  "lower_char c =
     (let n = (of_char c :: nat) in if 65 \<le> n \<and> n \<le> 90 then char_of (n + 32) else c)"

definition lower :: "string \<Rightarrow> string" where
  "lower w = map lower_char w"

text \<open>
  \<open>with self.conn:\<close> runs the body on the store; an exception rolls every statement of
  the body back and is raised again, a normal end commits.
\<close>

definition with_conn :: "(store \<Rightarrow> error + store) \<Rightarrow> store \<Rightarrow> unit result" where
  "with_conn body s = (case body s of Inl e \<Rightarrow> (Inl e, s) | Inr s' \<Rightarrow> (Inr (), s'))"

text \<open>\<open>UNIQUE(word, category, part_of_speech, sense_number)\<close>.\<close>

definition row_key :: "entry_row \<Rightarrow> pyval \<times> pyval \<times> pyval \<times> pyval" where
  "row_key r = (word r, category r, part_of_speech r, sense_number r)"

text \<open>
  \<open>INSERT OR REPLACE INTO dictionary (...) VALUES (...)\<close>: the rows that conflict with
  the new one on the unique key are deleted, then the new row is inserted.
\<close>

definition insert_or_replace :: "entry_row \<Rightarrow> entry_row list \<Rightarrow> entry_row list" where
  "insert_or_replace r rows = filter (\<lambda>r'. row_key r' \<noteq> row_key r) rows @ [r]"

definition execute_insert_or_replace :: "entry_row \<Rightarrow> store \<Rightarrow> store" where
  "execute_insert_or_replace r s = s\<lparr>dictionary := insert_or_replace r (dictionary s)\<rparr>"

text \<open>\<open>INSERT OR IGNORE INTO contexts (name) VALUES (?)\<close> under \<open>name TEXT UNIQUE\<close>.\<close>

definition insert_or_ignore :: "string \<Rightarrow> string list \<Rightarrow> string list" where
  "insert_or_ignore n names = (if n \<in> set names then names else names @ [n])"

definition execute_insert_or_ignore :: "string \<Rightarrow> store \<Rightarrow> store" where
  "execute_insert_or_ignore n s = s\<lparr>contexts := insert_or_ignore n (contexts s)\<rparr>"

subsection \<open>Entry methods\<close>

text \<open>\<open>add_entry\<close> (db.py, lines 81-89).\<close>

definition add_entry ::
  "string \<Rightarrow> string \<Rightarrow> string \<Rightarrow> string \<Rightarrow> string \<Rightarrow> int \<Rightarrow> store \<Rightarrow> unit result" where
  "add_entry w cat pos defn ctx sn s =
     with_conn (\<lambda>s0. Inr (execute_insert_or_replace
       \<lparr>word = PStr (lower w), category = PStr cat, part_of_speech = PStr pos,
        definition_col = PStr defn, context_hint = PStr ctx, sense_number = PInt sn\<rparr> s0)) s"

text \<open>
  \<open>add_multiple_entries\<close> (db.py, lines 91-100). Each element of \<open>entries\<close> is a
  Python tuple, here the list of its components; \<open>for pos, definition, context,
  sense_number in entries\<close> raises ValueError on a tuple that does not have exactly four
  components, after the tuples before it have been written.
\<close>

fun unpack4 :: "pyval list \<Rightarrow> error + (pyval \<times> pyval \<times> pyval \<times> pyval)" where
  "unpack4 [pos, defn, ctx, sn] = Inr (pos, defn, ctx, sn)"
| "unpack4 _ = Inl ValueError"

definition tuple_row :: "string \<Rightarrow> string \<Rightarrow> pyval \<times> pyval \<times> pyval \<times> pyval \<Rightarrow> entry_row" where
  "tuple_row w cat t =
     (case t of (pos, defn, ctx, sn) \<Rightarrow>
        \<lparr>word = PStr (lower w), category = PStr cat, part_of_speech = pos,
         definition_col = defn, context_hint = ctx, sense_number = sn\<rparr>)"

fun add_multiple_loop :: "string \<Rightarrow> string \<Rightarrow> pyval list list \<Rightarrow> store \<Rightarrow> error + store" where
  "add_multiple_loop w cat [] s = Inr s"
| "add_multiple_loop w cat (t # ts) s =
     (case unpack4 t of
        Inl e \<Rightarrow> Inl e
      | Inr u \<Rightarrow> add_multiple_loop w cat ts (execute_insert_or_replace (tuple_row w cat u) s))"

definition add_multiple_entries ::
  "string \<Rightarrow> string \<Rightarrow> pyval list list \<Rightarrow> store \<Rightarrow> unit result" where
  "add_multiple_entries w cat entries s = with_conn (add_multiple_loop w cat entries) s"

text \<open>\<open>delete_entry\<close> (db.py, lines 102-109); \<open>sense_number: int = None\<close>.\<close>

definition delete_entry :: "string \<Rightarrow> int option \<Rightarrow> store \<Rightarrow> unit result" where
  "delete_entry w sense s =
     with_conn (\<lambda>s0.
       (case sense of
          Some sn \<Rightarrow>
            Inr (s0\<lparr>dictionary :=
              filter (\<lambda>r. \<not> (word r = PStr (lower w) \<and> sense_number r = PInt sn))
                (dictionary s0)\<rparr>)
        | None \<Rightarrow>
            Inr (s0\<lparr>dictionary :=
              filter (\<lambda>r. \<not> (word r = PStr (lower w))) (dictionary s0)\<rparr>))) s"

text \<open>
  \<open>ORDER BY\<close>: integers sort before text, integers by value, text byte by byte. The
  sort is an insertion sort that keeps rows with equal sort keys in table order (SQLite
  leaves their order open).
\<close>

fun str_le :: "string \<Rightarrow> string \<Rightarrow> bool" where
  "str_le [] ys = True"
| "str_le (x # xs) [] = False"
| "str_le (x # xs) (y # ys) =
     ((of_char x :: nat) < of_char y \<or> (x = y \<and> str_le xs ys))"

fun val_le :: "pyval \<Rightarrow> pyval \<Rightarrow> bool" where
  "val_le (PInt a) (PInt b) = (a \<le> b)"
| "val_le (PInt a) (PStr y) = True"
| "val_le (PStr x) (PInt b) = False"
| "val_le (PStr x) (PStr y) = str_le x y"

fun insort_by :: "('a \<Rightarrow> 'a \<Rightarrow> bool) \<Rightarrow> 'a \<Rightarrow> 'a list \<Rightarrow> 'a list" where
  "insort_by le r [] = [r]"
| "insort_by le r (x # xs) = (if le r x then r # x # xs else x # insort_by le r xs)"

definition order_by :: "('a \<Rightarrow> 'a \<Rightarrow> bool) \<Rightarrow> 'a list \<Rightarrow> 'a list" where
  "order_by le xs = foldr (insort_by le) xs []"

definition word_sense_le :: "entry_row \<Rightarrow> entry_row \<Rightarrow> bool" where
  "word_sense_le r r' =
     (if word r = word r' then val_le (sense_number r) (sense_number r')
      else val_le (word r) (word r'))"

text \<open>\<open>get_all_entries\<close> (db.py, lines 111-119): the rows as 6-tuples.\<close>

definition get_all_entries ::
  "store \<Rightarrow> (pyval \<times> pyval \<times> pyval \<times> pyval \<times> pyval \<times> pyval) list" where
  "get_all_entries s =
     map (\<lambda>r. (word r, category r, part_of_speech r, definition_col r, context_hint r,
                sense_number r))
       (order_by word_sense_le (dictionary s))"

subsection \<open>Context and settings methods\<close>

text \<open>\<open>get_contexts\<close> (db.py, lines 127-131).\<close>

definition get_contexts :: "store \<Rightarrow> string list" where
  "get_contexts s = order_by str_le (contexts s)"

text \<open>\<open>add_context\<close> (db.py, lines 133-136).\<close>

definition add_context :: "string \<Rightarrow> store \<Rightarrow> unit result" where
  "add_context n s = with_conn (\<lambda>s0. Inr (execute_insert_or_ignore n s0)) s"

text \<open>\<open>delete_context\<close> (db.py, lines 138-141).\<close>

definition delete_context :: "string \<Rightarrow> store \<Rightarrow> unit result" where
  "delete_context n s =
     with_conn (\<lambda>s0. Inr (s0\<lparr>contexts := filter (\<lambda>c. c \<noteq> n) (contexts s0)\<rparr>)) s"

text \<open>
  \<open>UPDATE contexts SET name = ? WHERE name = ?\<close>. The rows are visited in table order;
  \<open>done\<close> holds the rows already visited, as they now are. A row named \<open>old\<close> gets the
  new name unless another row of the table already has it: then the statement fails on
  the \<open>UNIQUE\<close> constraint.
\<close>

fun update_name :: "string \<Rightarrow> string \<Rightarrow> string list \<Rightarrow> string list \<Rightarrow> error + string list" where
  "update_name new old done [] = Inr done"
| "update_name new old done (c # rest) =
     (if c = old then
        (if new \<in> set done \<or> new \<in> set rest then Inl IntegrityError
         else update_name new old (done @ [new]) rest)
      else update_name new old (done @ [c]) rest)"

text \<open>\<open>rename_context\<close> (db.py, lines 143-146).\<close>

definition rename_context :: "string \<Rightarrow> string \<Rightarrow> store \<Rightarrow> unit result" where
  "rename_context old_name new_name s =
     with_conn (\<lambda>s0.
       (case update_name new_name old_name [] (contexts s0) of
          Inl e \<Rightarrow> Inl e
        | Inr names \<Rightarrow> Inr (s0\<lparr>contexts := names\<rparr>))) s"

text \<open>\<open>get_setting\<close> and \<open>set_setting\<close> (db.py, lines 148-158); \<open>key\<close> is the primary key.\<close>

definition get_setting :: "string \<Rightarrow> string \<Rightarrow> store \<Rightarrow> string" where
  "get_setting k dflt s = (case map_of (settings s) k of Some v \<Rightarrow> v | None \<Rightarrow> dflt)"

definition set_setting :: "string \<Rightarrow> string \<Rightarrow> store \<Rightarrow> unit result" where
  "set_setting k v s =
     with_conn (\<lambda>s0. Inr (s0\<lparr>settings :=
       filter (\<lambda>kv. fst kv \<noteq> k) (settings s0) @ [(k, v)]\<rparr>)) s"

subsection \<open>Initialisation\<close>

text \<open>\<open>_prepopulate_contexts\<close> (db.py, lines 69-77).\<close>

definition defaults :: "string list" where
  "defaults =
     [''Species'', ''Planet'', ''Language'', ''Culture'', ''Artifact'',
      ''Event'', ''Location'', ''Organization'', ''Concept'', ''Adjective (race-like)'']"

definition prepopulate_contexts :: "store \<Rightarrow> unit result" where
  "prepopulate_contexts s = with_conn (\<lambda>s0. Inr (fold execute_insert_or_ignore defaults s0)) s"

text \<open>
  \<open>__init__\<close> (db.py, lines 14-24) on a database file whose tables hold \<open>s\<close>:
  \<open>CREATE TABLE IF NOT EXISTS\<close> and the column migration leave the rows of a store
  that already has all columns as they are; then the default contexts are seeded. A
  new file or \<open>:memory:\<close> starts from the empty tables.
\<close>

definition init_db :: "store \<Rightarrow> store" where
  "init_db s = snd (prepopulate_contexts s)"

definition empty_store :: store where
  "empty_store = \<lparr>dictionary = [], contexts = [], settings = []\<rparr>"

definition new_db :: store where
  "new_db = init_db empty_store"

subsection \<open>Export and import\<close>

text \<open>\<open>export_dictionary\<close> (db.py, lines 162-174).\<close>

definition export_dictionary :: "store \<Rightarrow> (string \<rightharpoonup> pyval) list" where
  "export_dictionary s =
     map (\<lambda>row. case row of (w, cat, pos, defn, ctx, sn) \<Rightarrow>
           [''word'' \<mapsto> w, ''category'' \<mapsto> cat, ''part_of_speech'' \<mapsto> pos,
            ''definition'' \<mapsto> defn, ''context_hint'' \<mapsto> ctx, ''sense_number'' \<mapsto> sn])
       (get_all_entries s)"

text \<open>\<open>export_contexts\<close> (db.py, lines 176-178).\<close>

definition export_contexts :: "store \<Rightarrow> (string \<rightharpoonup> string) list" where
  "export_contexts s = map (\<lambda>ctx. [''name'' \<mapsto> ctx]) (get_contexts s)"

text \<open>
  The parameter tuple of the insert in \<open>import_dictionary\<close> (db.py, lines 190-191):
  \<open>entry[k]\<close> raises KeyError when \<open>k\<close> is missing, the subscripts are evaluated from
  left to right, and \<open>entry.get("sense_number", 1)\<close> defaults to 1.
\<close>

definition subscript :: "(string \<rightharpoonup> 'v) \<Rightarrow> string \<Rightarrow> error + 'v" where
  "subscript entry k = (case entry k of None \<Rightarrow> Inl (KeyError k) | Some v \<Rightarrow> Inr v)"

definition entry_params :: "(string \<rightharpoonup> pyval) \<Rightarrow> error + entry_row" where
  "entry_params entry =
     (case subscript entry ''word'' of Inl e \<Rightarrow> Inl e | Inr w \<Rightarrow>
     (case subscript entry ''category'' of Inl e \<Rightarrow> Inl e | Inr cat \<Rightarrow>
     (case subscript entry ''part_of_speech'' of Inl e \<Rightarrow> Inl e | Inr pos \<Rightarrow>
     (case subscript entry ''definition'' of Inl e \<Rightarrow> Inl e | Inr defn \<Rightarrow>
     (case subscript entry ''context_hint'' of Inl e \<Rightarrow> Inl e | Inr ctx \<Rightarrow>
        Inr \<lparr>word = w, category = cat, part_of_speech = pos, definition_col = defn,
             context_hint = ctx,
             sense_number =
               (case entry ''sense_number'' of None \<Rightarrow> PInt 1 | Some sn \<Rightarrow> sn)\<rparr>)))))"

fun import_dictionary_loop :: "(string \<rightharpoonup> pyval) list \<Rightarrow> store \<Rightarrow> error + store" where
  "import_dictionary_loop [] s = Inr s"
| "import_dictionary_loop (entry # es) s =
     (case entry_params entry of
        Inl e \<Rightarrow> Inl e
      | Inr r \<Rightarrow> import_dictionary_loop es (execute_insert_or_replace r s))"

text \<open>\<open>import_dictionary\<close> (db.py, lines 180-192).\<close>

definition import_dictionary :: "(string \<rightharpoonup> pyval) list \<Rightarrow> string \<Rightarrow> store \<Rightarrow> unit result" where
  "import_dictionary data mode s =
     with_conn (\<lambda>s0.
       import_dictionary_loop data
         (if mode = ''replace'' then s0\<lparr>dictionary := []\<rparr> else s0)) s"

fun import_contexts_loop :: "(string \<rightharpoonup> string) list \<Rightarrow> store \<Rightarrow> error + store" where
  "import_contexts_loop [] s = Inr s"
| "import_contexts_loop (entry # es) s =
     (case subscript entry ''name'' of
        Inl e \<Rightarrow> Inl e
      | Inr n \<Rightarrow> import_contexts_loop es (execute_insert_or_ignore n s))"

text \<open>\<open>import_contexts\<close> (db.py, lines 194-200).\<close>

definition import_contexts :: "(string \<rightharpoonup> string) list \<Rightarrow> string \<Rightarrow> store \<Rightarrow> unit result" where
  "import_contexts data mode s =
     with_conn (\<lambda>s0.
       import_contexts_loop data
         (if mode = ''replace'' then s0\<lparr>contexts := []\<rparr> else s0)) s"

subsection \<open>Notions used in the statements\<close>

text \<open>The mapping that \<open>export_dictionary\<close> builds for one row.\<close>

definition row_dict :: "entry_row \<Rightarrow> (string \<rightharpoonup> pyval)" where
  "row_dict r =
     [''word'' \<mapsto> word r, ''category'' \<mapsto> category r,
      ''part_of_speech'' \<mapsto> part_of_speech r, ''definition'' \<mapsto> definition_col r,
      ''context_hint'' \<mapsto> context_hint r, ''sense_number'' \<mapsto> sense_number r]"

text \<open>
  The keys that \<open>import_dictionary\<close> subscripts. An input row is malformed when one
  of them is missing. It is well-formed when all five are present and hold text, and
  \<open>sense_number\<close> is absent or an integer. Its unique key is what the insert compares:
  word, category, part of speech, and the sense number with its default.
\<close>

definition required_fields :: "string list" where
  "required_fields =
     [''word'', ''category'', ''part_of_speech'', ''definition'', ''context_hint'']"

definition malformed :: "(string \<rightharpoonup> pyval) \<Rightarrow> bool" where
  "malformed entry = list_ex (\<lambda>k. entry k = None) required_fields"




text \<open>A stored word is lowercase when \<open>str.lower\<close> leaves it as it is.\<close>

definition lowercase_word :: "entry_row \<Rightarrow> bool" where
  "lowercase_word r = (case word r of PStr w \<Rightarrow> lower w = w | PInt n \<Rightarrow> False)"

text \<open>
  The uniqueness constraints of the three tables, and the stores that the methods of
  \<open>DictionaryDB\<close> can produce from a new database.
\<close>

definition store_inv :: "store \<Rightarrow> bool" where
  "store_inv s =
     (distinct (map row_key (dictionary s)) \<and> distinct (contexts s) \<and>
      distinct (map fst (settings s)))"

inductive reachable :: "store \<Rightarrow> bool" where
  r_new: "reachable new_db"
| r_init: "reachable s \<Longrightarrow> reachable (init_db s)"
| r_add_entry: "reachable s \<Longrightarrow> reachable (snd (add_entry w cat pos defn ctx sn s))"
| r_add_multiple: "reachable s \<Longrightarrow> reachable (snd (add_multiple_entries w cat entries s))"
| r_delete_entry: "reachable s \<Longrightarrow> reachable (snd (delete_entry w sense s))"
| r_add_context: "reachable s \<Longrightarrow> reachable (snd (add_context n s))"
| r_delete_context: "reachable s \<Longrightarrow> reachable (snd (delete_context n s))"
| r_rename_context: "reachable s \<Longrightarrow> reachable (snd (rename_context old new s))"
| r_set_setting: "reachable s \<Longrightarrow> reachable (snd (set_setting k v s))"
| r_import_dictionary: "reachable s \<Longrightarrow> reachable (snd (import_dictionary data mode s))"
| r_import_contexts: "reachable s \<Longrightarrow> reachable (snd (import_contexts cdata mode s))"

subsection \<open>Example stores and payloads\<close>

text \<open>One word with sense 1 under two categories.\<close>

definition kaneran2 :: store where
  "kaneran2 =
     snd (add_entry ''kaneran'' ''Place'' ''Noun'' ''A moon.'' ''Astronomy'' 1
       (snd (add_entry ''kaneran'' ''Species'' ''Noun'' ''An alien species.''
          ''Sci-fi context'' 1 new_db)))"

text \<open>One word with two senses under one category, as in test_db.py.\<close>

definition two_senses :: store where
  "two_senses =
     snd (add_multiple_entries ''kaneran'' ''Species''
       [[PStr ''Noun'', PStr ''First meaning.'', PStr ''Context A'', PInt 1],
        [PStr ''Noun'', PStr ''Second meaning.'', PStr ''Context B'', PInt 2]] new_db)"

text \<open>A context \<open>Galaxy\<close> and an entry whose context hint names it.\<close>

definition galaxy_db :: store where
  "galaxy_db =
     snd (add_entry ''nebula'' ''Concept'' ''Noun'' ''A cloud of gas.'' ''Galaxy'' 1
       (snd (add_context ''Galaxy'' new_db)))"

text \<open>A payload whose second row has no \<open>definition\<close>.\<close>

definition broken_payload :: "(string \<rightharpoonup> pyval) list" where
  "broken_payload =
     [[''word'' \<mapsto> PStr ''vorn'', ''category'' \<mapsto> PStr ''Planet'',
       ''part_of_speech'' \<mapsto> PStr ''Noun'', ''definition'' \<mapsto> PStr ''A gas giant.'',
       ''context_hint'' \<mapsto> PStr ''Planet'', ''sense_number'' \<mapsto> PInt 1],
      [''word'' \<mapsto> PStr ''kaneran'', ''category'' \<mapsto> PStr ''Species'',
       ''part_of_speech'' \<mapsto> PStr ''Noun'', ''context_hint'' \<mapsto> PStr ''Species'']]"


text \<open>A well-formed row whose word has a capital letter.\<close>

definition mixed_case_payload :: "(string \<rightharpoonup> pyval) list" where
  "mixed_case_payload =
     [[''word'' \<mapsto> PStr ''Kaneran'', ''category'' \<mapsto> PStr ''Species'',
       ''part_of_speech'' \<mapsto> PStr ''Noun'', ''definition'' \<mapsto> PStr ''An alien species.'',
       ''context_hint'' \<mapsto> PStr ''Sci-fi context'', ''sense_number'' \<mapsto> PInt 1]]"

section \<open>Properties\<close>

subsection \<open>Transactions, sorting and the primitives\<close>

lemma with_conn_inv:
  assumes "\<And>s'. body s = Inr s' \<Longrightarrow> P s'" and "P s"
  shows "P (snd (with_conn body s))"
  using assms by (cases "body s") (simp_all add: with_conn_def)

lemma set_insort_by: "set (insort_by le r xs) = insert r (set xs)"
  by (induction xs) auto

lemma length_insort_by: "length (insort_by le r xs) = Suc (length xs)"
  by (induction xs) auto

lemma distinct_map_insort_by:
  "distinct (map f (insort_by le r xs)) = (f r \<notin> f ` set xs \<and> distinct (map f xs))"
  by (induction xs) (auto simp: set_insort_by)

lemma set_order_by: "set (order_by le xs) = set xs"
  by (induction xs) (auto simp: order_by_def set_insort_by)

lemma length_order_by: "length (order_by le xs) = length xs"
  by (induction xs) (auto simp: order_by_def length_insort_by)

lemma distinct_map_order_by: "distinct (map f (order_by le xs)) = distinct (map f xs)"
proof (induction xs)
  case Nil
  show ?case by (simp add: order_by_def)
next
  case (Cons x xs)
  have "order_by le (x # xs) = insort_by le x (order_by le xs)"
    by (simp add: order_by_def)
  then show ?case
    using Cons by (simp add: distinct_map_insort_by set_order_by)
qed


lemma count_list_distinct: "distinct xs \<Longrightarrow> x \<in> set xs \<Longrightarrow> count_list xs x = 1"
  by (induction xs) auto

lemma lower_char_idem: "lower_char (lower_char c) = lower_char c"
  by (simp add: lower_char_def Let_def)

lemma lower_idem: "lower (lower w) = lower w"
  by (simp add: lower_def lower_char_idem)

lemma lower_Kaneran: "lower ''Kaneran'' = ''kaneran''"
  by code_simp

lemma lower_kaneran: "lower ''kaneran'' = ''kaneran''"
  by code_simp

lemma lower_nebula: "lower ''nebula'' = ''nebula''"
  by code_simp

lemma insert_or_replace_fresh:
  "row_key r \<notin> row_key ` set rows \<Longrightarrow> insert_or_replace r rows = rows @ [r]"
  by (auto simp: insert_or_replace_def filter_id_conv image_iff)

lemma distinct_insert_or_replace:
  "distinct (map row_key rows) \<Longrightarrow> distinct (map row_key (insert_or_replace r rows))"
  by (auto simp: insert_or_replace_def distinct_map_filter)

lemma insert_or_ignore_present: "n \<in> set names \<Longrightarrow> insert_or_ignore n names = names"
  by (simp add: insert_or_ignore_def)

lemma set_insert_or_ignore: "set (insert_or_ignore n names) = insert n (set names)"
  by (auto simp: insert_or_ignore_def)

lemma distinct_insert_or_ignore: "distinct names \<Longrightarrow> distinct (insert_or_ignore n names)"
  by (simp add: insert_or_ignore_def)

lemma execute_insert_or_ignore_present:
  "n \<in> set (contexts s) \<Longrightarrow> execute_insert_or_ignore n s = s"
  by (simp add: execute_insert_or_ignore_def insert_or_ignore_present)

lemma contexts_execute_insert_or_ignore:
  "set (contexts (execute_insert_or_ignore n s)) = insert n (set (contexts s))"
  by (simp add: execute_insert_or_ignore_def set_insert_or_ignore)

lemma dictionary_fold_ignore:
  "dictionary (fold execute_insert_or_ignore ns s) = dictionary s"
  by (induction ns arbitrary: s) (simp_all add: execute_insert_or_ignore_def)

lemma set_contexts_fold_ignore:
  "set (contexts (fold execute_insert_or_ignore ns s)) = set ns \<union> set (contexts s)"
  by (induction ns arbitrary: s) (auto simp: contexts_execute_insert_or_ignore)

lemma distinct_contexts_fold_ignore:
  "distinct (contexts s) \<Longrightarrow> distinct (contexts (fold execute_insert_or_ignore ns s))"
  by (induction ns arbitrary: s)
     (simp_all add: execute_insert_or_ignore_def distinct_insert_or_ignore)

lemma fold_ignore_present:
  "set ns \<subseteq> set (contexts s) \<Longrightarrow> fold execute_insert_or_ignore ns s = s"
  by (induction ns) (simp_all add: execute_insert_or_ignore_present)

lemma init_db_fold: "init_db s = fold execute_insert_or_ignore defaults s"
  by (simp add: init_db_def prepopulate_contexts_def with_conn_def)

subsection \<open>The example stores\<close>

lemma dictionary_new_db: "dictionary new_db = []"
  by (simp add: new_db_def init_db_fold dictionary_fold_ignore empty_store_def)

lemma contexts_new_db: "contexts new_db = defaults"
  by (simp add: new_db_def init_db_fold empty_store_def defaults_def
      execute_insert_or_ignore_def insert_or_ignore_def)

lemma dictionary_kaneran2:
  "dictionary kaneran2 =
     [\<lparr>word = PStr ''kaneran'', category = PStr ''Species'', part_of_speech = PStr ''Noun'',
       definition_col = PStr ''An alien species.'', context_hint = PStr ''Sci-fi context'',
       sense_number = PInt 1\<rparr>,
      \<lparr>word = PStr ''kaneran'', category = PStr ''Place'', part_of_speech = PStr ''Noun'',
       definition_col = PStr ''A moon.'', context_hint = PStr ''Astronomy'',
       sense_number = PInt 1\<rparr>]"
  by (simp add: kaneran2_def add_entry_def with_conn_def execute_insert_or_replace_def
      insert_or_replace_def row_key_def dictionary_new_db lower_kaneran)

lemma reachable_kaneran2: "reachable kaneran2"
  unfolding kaneran2_def by (intro reachable.intros)

lemma dictionary_two_senses:
  "dictionary two_senses =
     [\<lparr>word = PStr ''kaneran'', category = PStr ''Species'', part_of_speech = PStr ''Noun'',
       definition_col = PStr ''First meaning.'', context_hint = PStr ''Context A'',
       sense_number = PInt 1\<rparr>,
      \<lparr>word = PStr ''kaneran'', category = PStr ''Species'', part_of_speech = PStr ''Noun'',
       definition_col = PStr ''Second meaning.'', context_hint = PStr ''Context B'',
       sense_number = PInt 2\<rparr>]"
  by (simp add: two_senses_def add_multiple_entries_def with_conn_def tuple_row_def
      execute_insert_or_replace_def insert_or_replace_def row_key_def dictionary_new_db
      lower_kaneran)

lemma contexts_galaxy_db: "contexts galaxy_db = defaults @ [''Galaxy'']"
  by (simp add: galaxy_db_def add_entry_def add_context_def with_conn_def
      execute_insert_or_replace_def execute_insert_or_ignore_def insert_or_ignore_def
      contexts_new_db) (simp add: defaults_def)

lemma dictionary_galaxy_db:
  "dictionary galaxy_db =
     [\<lparr>word = PStr ''nebula'', category = PStr ''Concept'', part_of_speech = PStr ''Noun'',
       definition_col = PStr ''A cloud of gas.'', context_hint = PStr ''Galaxy'',
       sense_number = PInt 1\<rparr>]"
  by (simp add: galaxy_db_def add_entry_def add_context_def with_conn_def
      execute_insert_or_replace_def execute_insert_or_ignore_def insert_or_replace_def
      dictionary_new_db lower_nebula)

subsection \<open>The uniqueness constraints hold in every reachable store\<close>

lemma store_inv_insert_or_replace:
  "store_inv s \<Longrightarrow> store_inv (execute_insert_or_replace r s)"
  by (simp add: store_inv_def execute_insert_or_replace_def distinct_insert_or_replace)

lemma store_inv_insert_or_ignore:
  "store_inv s \<Longrightarrow> store_inv (execute_insert_or_ignore n s)"
  by (simp add: store_inv_def execute_insert_or_ignore_def distinct_insert_or_ignore)

lemma store_inv_fold_ignore:
  "store_inv s \<Longrightarrow> store_inv (fold execute_insert_or_ignore ns s)"
  by (induction ns arbitrary: s) (simp_all add: store_inv_insert_or_ignore)

lemma store_inv_add_multiple_loop:
  "store_inv s \<Longrightarrow> add_multiple_loop w cat entries s = Inr s' \<Longrightarrow> store_inv s'"
  by (induction entries arbitrary: s)
     (auto split: sum.splits intro: store_inv_insert_or_replace)

lemma store_inv_import_dictionary_loop:
  "store_inv s \<Longrightarrow> import_dictionary_loop data s = Inr s' \<Longrightarrow> store_inv s'"
  by (induction data arbitrary: s)
     (auto split: sum.splits intro: store_inv_insert_or_replace)

lemma store_inv_import_contexts_loop:
  "store_inv s \<Longrightarrow> import_contexts_loop data s = Inr s' \<Longrightarrow> store_inv s'"
  by (induction data arbitrary: s)
     (auto split: sum.splits intro: store_inv_insert_or_ignore)

lemma distinct_update_name:
  "distinct (done @ rest) \<Longrightarrow> update_name new old done rest = Inr names \<Longrightarrow> distinct names"
proof (induction rest arbitrary: "done")
  case Nil
  then show ?case by simp
next
  case (Cons c rest)
  show ?case
  proof (cases "c = old")
    case True
    with Cons.prems have ok: "new \<notin> set done" "new \<notin> set rest"
      and rec: "update_name new old (done @ [new]) rest = Inr names"
      by (auto split: if_splits)
    have "distinct ((done @ [new]) @ rest)"
      using Cons.prems(1) ok by auto
    from Cons.IH [OF this rec] show ?thesis .
  next
    case False
    with Cons.prems have rec: "update_name new old (done @ [c]) rest = Inr names" by simp
    have "distinct ((done @ [c]) @ rest)"
      using Cons.prems(1) by auto
    from Cons.IH [OF this rec] show ?thesis .
  qed
qed

lemma store_inv_empty: "store_inv empty_store"
  by (simp add: store_inv_def empty_store_def)

lemma store_inv_init_db: "store_inv s \<Longrightarrow> store_inv (init_db s)"
  by (simp add: init_db_fold store_inv_fold_ignore)

lemma store_inv_add_entry:
  "store_inv s \<Longrightarrow> store_inv (snd (add_entry w cat pos defn ctx sn s))"
  unfolding add_entry_def
  by (rule with_conn_inv [where P = store_inv]) (auto intro: store_inv_insert_or_replace)

lemma store_inv_add_multiple_entries:
  "store_inv s \<Longrightarrow> store_inv (snd (add_multiple_entries w cat entries s))"
  unfolding add_multiple_entries_def
  by (rule with_conn_inv [where P = store_inv]) (auto intro: store_inv_add_multiple_loop)

lemma store_inv_delete_entry:
  "store_inv s \<Longrightarrow> store_inv (snd (delete_entry w sense s))"
  unfolding delete_entry_def
  by (rule with_conn_inv [where P = store_inv])
     (auto simp: store_inv_def distinct_map_filter split: option.splits)

lemma store_inv_add_context:
  "store_inv s \<Longrightarrow> store_inv (snd (add_context n s))"
  unfolding add_context_def
  by (rule with_conn_inv [where P = store_inv]) (auto intro: store_inv_insert_or_ignore)

lemma store_inv_delete_context:
  "store_inv s \<Longrightarrow> store_inv (snd (delete_context n s))"
  unfolding delete_context_def
  by (rule with_conn_inv [where P = store_inv]) (auto simp: store_inv_def)

lemma store_inv_rename_context:
  "store_inv s \<Longrightarrow> store_inv (snd (rename_context old new s))"
  unfolding rename_context_def
  by (rule with_conn_inv [where P = store_inv])
     (auto simp: store_inv_def split: sum.splits
        dest: distinct_update_name [where ?done = "[]", simplified, rotated])

lemma store_inv_set_setting:
  "store_inv s \<Longrightarrow> store_inv (snd (set_setting k v s))"
  unfolding set_setting_def
  by (rule with_conn_inv [where P = store_inv]) (auto simp: store_inv_def distinct_map_filter)

lemma store_inv_import_dictionary:
  assumes "store_inv s"
  shows "store_inv (snd (import_dictionary data mode s))"
proof -
  have "store_inv (s\<lparr>dictionary := []\<rparr>)"
    using assms by (simp add: store_inv_def)
  with assms show ?thesis
    unfolding import_dictionary_def
    by - (rule with_conn_inv [where P = store_inv],
          auto split: if_splits intro: store_inv_import_dictionary_loop)
qed

lemma store_inv_import_contexts:
  assumes "store_inv s"
  shows "store_inv (snd (import_contexts data mode s))"
proof -
  have "store_inv (s\<lparr>contexts := []\<rparr>)"
    using assms by (simp add: store_inv_def)
  with assms show ?thesis
    unfolding import_contexts_def
    by - (rule with_conn_inv [where P = store_inv],
          auto split: if_splits intro: store_inv_import_contexts_loop)
qed

lemma reachable_store_inv: "reachable s \<Longrightarrow> store_inv s"
proof (induction rule: reachable.induct)
  case r_new
  show ?case by (simp add: new_db_def store_inv_init_db store_inv_empty)
qed (simp_all add: store_inv_init_db store_inv_add_entry store_inv_add_multiple_entries
      store_inv_delete_entry store_inv_add_context store_inv_delete_context
      store_inv_rename_context store_inv_set_setting store_inv_import_dictionary
      store_inv_import_contexts)

subsection \<open>Export and import of the dictionary\<close>

lemma export_dictionary_rows:
  "export_dictionary s = map row_dict (order_by word_sense_le (dictionary s))"
  by (simp add: export_dictionary_def get_all_entries_def row_dict_def)

lemma entry_params_row_dict: "entry_params (row_dict r) = Inr r"
  by (simp add: entry_params_def row_dict_def subscript_def)

lemma import_loop_fresh:
  "map entry_params data = map Inr rs \<Longrightarrow> distinct (map row_key rs) \<Longrightarrow>
   row_key ` set (dictionary s) \<inter> row_key ` set rs = {} \<Longrightarrow>
   import_dictionary_loop data s = Inr (s\<lparr>dictionary := dictionary s @ rs\<rparr>)"
proof (induction data arbitrary: s rs)
  case Nil
  then show ?case by simp
next
  case (Cons entry es)
  from Cons.prems(1) obtain r rs' where rs: "rs = r # rs'"
    and r: "entry_params entry = Inr r" and rest: "map entry_params es = map Inr rs'"
    by (cases rs) auto
  have fresh: "row_key r \<notin> row_key ` set (dictionary s)"
    using Cons.prems(3) rs by auto
  let ?s = "execute_insert_or_replace r s"
  have d: "dictionary ?s = dictionary s @ [r]"
    by (simp add: execute_insert_or_replace_def insert_or_replace_fresh [OF fresh])
  have "row_key ` set (dictionary ?s) \<inter> row_key ` set rs' = {}"
    using Cons.prems(2,3) rs d by auto
  moreover have "distinct (map row_key rs')"
    using Cons.prems(2) rs by simp
  ultimately have "import_dictionary_loop es ?s = Inr (?s\<lparr>dictionary := dictionary ?s @ rs'\<rparr>)"
    using Cons.IH [OF rest] by blast
  then show ?case
    by (simp add: r rs d) (simp add: execute_insert_or_replace_def)
qed

text \<open>
  C1. Let \<open>s\<close> be a store whose entry rows have pairwise distinct unique keys (every
  reachable store, by \<open>reachable_store_inv\<close>) and \<open>t\<close> a store with no entry rows.
  Importing \<open>export_dictionary s\<close> into \<open>t\<close> in merge mode succeeds, and the entry rows
  of the result are the entry rows of \<open>s\<close>: the same set of rows, all six fields
  included, and the same number of them.
\<close>

theorem export_import_roundtrip:
  assumes "distinct (map row_key (dictionary s))" and "dictionary t = []"
  shows "fst (import_dictionary (export_dictionary s) ''merge'' t) = Inr () \<and>
         set (dictionary (snd (import_dictionary (export_dictionary s) ''merge'' t)))
           = set (dictionary s) \<and>
         length (dictionary (snd (import_dictionary (export_dictionary s) ''merge'' t)))
           = length (dictionary s)"
proof -
  let ?rs = "order_by word_sense_le (dictionary s)"
  have e: "map entry_params (map row_dict ?rs) = map Inr ?rs"
    by (simp add: entry_params_row_dict comp_def)
  have "distinct (map row_key ?rs)"
    using assms(1) by (simp add: distinct_map_order_by)
  with e have "import_dictionary_loop (map row_dict ?rs) t
      = Inr (t\<lparr>dictionary := dictionary t @ ?rs\<rparr>)"
    by (rule import_loop_fresh) (simp add: assms(2))
  then have "import_dictionary (export_dictionary s) ''merge'' t
      = (Inr (), t\<lparr>dictionary := ?rs\<rparr>)"
    by (simp add: import_dictionary_def with_conn_def export_dictionary_rows assms(2))
  then show ?thesis
    by (simp add: set_order_by length_order_by)
qed

text \<open>The round trip of the two-row store \<open>kaneran2\<close> into a new database.\<close>

theorem export_import_roundtrip_witness:
  "distinct (map row_key (dictionary kaneran2)) \<and> dictionary new_db = [] \<and>
   length (dictionary kaneran2) = 2 \<and>
   fst (import_dictionary (export_dictionary kaneran2) ''merge'' new_db) = Inr () \<and>
   set (dictionary (snd (import_dictionary (export_dictionary kaneran2) ''merge'' new_db)))
     = set (dictionary kaneran2) \<and>
   length (dictionary (snd (import_dictionary (export_dictionary kaneran2) ''merge'' new_db)))
     = 2"
proof -
  have d: "distinct (map row_key (dictionary kaneran2))"
    by (simp add: dictionary_kaneran2 row_key_def)
  have len: "length (dictionary kaneran2) = 2"
    by (simp add: dictionary_kaneran2)
  show ?thesis
    using d len dictionary_new_db export_import_roundtrip [OF d dictionary_new_db] by simp
qed

subsection \<open>Deleting one sense\<close>

text \<open>
  C2, as the claim states it, fails: in the reachable store \<open>kaneran2\<close> the word
  "kaneran" has sense 1 under the categories Species and Place, and
  \<open>delete_entry("kaneran", 1)\<close> removes both rows, not exactly one.
\<close>

theorem delete_entry_sense_counterexample:
  "reachable kaneran2 \<and> length (dictionary kaneran2) = 2 \<and>
   dictionary (snd (delete_entry ''kaneran'' (Some 1) kaneran2)) = [] \<and>
   \<not> (length (dictionary (snd (delete_entry ''kaneran'' (Some 1) kaneran2))) + 1
        = length (dictionary kaneran2))"
  by (simp add: reachable_kaneran2 dictionary_kaneran2 delete_entry_def with_conn_def
      lower_kaneran)

text \<open>
  C2, amended. \<open>delete_entry(w, s)\<close> succeeds and removes every row whose word is the
  lowercased \<open>w\<close> and whose sense number is \<open>s\<close>, under whatever category and part of
  speech: no such row is left, the other rows stay as they were and in their order, and
  the number of rows drops by the number of rows that matched (by one when exactly one
  row matched, by none when no row did). The contexts and the settings do not change.
\<close>

theorem delete_entry_sense_rows:
  "fst (delete_entry w (Some sn) s) = Inr () \<and>
   filter (\<lambda>r. word r = PStr (lower w) \<and> sense_number r = PInt sn)
     (dictionary (snd (delete_entry w (Some sn) s))) = [] \<and>
   filter (\<lambda>r. \<not> (word r = PStr (lower w) \<and> sense_number r = PInt sn))
     (dictionary (snd (delete_entry w (Some sn) s)))
   = filter (\<lambda>r. \<not> (word r = PStr (lower w) \<and> sense_number r = PInt sn)) (dictionary s) \<and>
   length (dictionary (snd (delete_entry w (Some sn) s)))
     + length (filter (\<lambda>r. word r = PStr (lower w) \<and> sense_number r = PInt sn) (dictionary s))
   = length (dictionary s) \<and>
   contexts (snd (delete_entry w (Some sn) s)) = contexts s \<and>
   settings (snd (delete_entry w (Some sn) s)) = settings s"
proof -
  let ?m = "\<lambda>r. word r = PStr (lower w) \<and> sense_number r = PInt sn"
  have d: "delete_entry w (Some sn) s
      = (Inr (), s\<lparr>dictionary := filter (\<lambda>r. \<not> ?m r) (dictionary s)\<rparr>)"
    by (simp add: delete_entry_def with_conn_def)
  have "length (filter (\<lambda>r. \<not> ?m r) (dictionary s)) + length (filter ?m (dictionary s))
      = length (dictionary s)"
    using sum_length_filter_compl [of ?m "dictionary s"] by simp
  then show ?thesis
    unfolding d by simp
qed

text \<open>Deleting sense 1 of the two senses of test_db.py leaves the row of sense 2.\<close>

theorem delete_entry_sense_rows_witness:
  "length (dictionary two_senses) = 2 \<and>
   length (dictionary (snd (delete_entry ''Kaneran'' (Some 1) two_senses))) + 1 = 2 \<and>
   filter (\<lambda>r. \<not> (word r = PStr ''kaneran'' \<and> sense_number r = PInt 1))
     (dictionary (snd (delete_entry ''Kaneran'' (Some 1) two_senses)))
   = [\<lparr>word = PStr ''kaneran'', category = PStr ''Species'', part_of_speech = PStr ''Noun'',
       definition_col = PStr ''Second meaning.'', context_hint = PStr ''Context B'',
       sense_number = PInt 2\<rparr>]"
  using delete_entry_sense_rows [of "''Kaneran''" 1 two_senses]
  by (simp add: dictionary_two_senses lower_Kaneran)

subsection \<open>Lowercase words\<close>

lemma lowercase_insert_or_replace:
  "list_all lowercase_word rows \<Longrightarrow> lowercase_word r \<Longrightarrow>
   list_all lowercase_word (insert_or_replace r rows)"
  by (simp add: insert_or_replace_def list_all_iff)

lemma add_entry_lowercase:
  "list_all lowercase_word (dictionary s) \<Longrightarrow>
   list_all lowercase_word (dictionary (snd (add_entry w cat pos defn ctx sn s)))"
  by (simp add: add_entry_def with_conn_def execute_insert_or_replace_def
      lowercase_insert_or_replace lowercase_word_def lower_idem)

lemma add_multiple_loop_lowercase:
  "list_all lowercase_word (dictionary s) \<Longrightarrow> add_multiple_loop w cat entries s = Inr s' \<Longrightarrow>
   list_all lowercase_word (dictionary s')"
proof (induction entries arbitrary: s)
  case Nil
  then show ?case by simp
next
  case (Cons t ts)
  from Cons.prems(2) obtain u where u: "unpack4 t = Inr u"
    and rec: "add_multiple_loop w cat ts (execute_insert_or_replace (tuple_row w cat u) s) = Inr s'"
    by (auto split: sum.splits)
  have "lowercase_word (tuple_row w cat u)"
    by (cases u) (simp add: tuple_row_def lowercase_word_def lower_idem)
  then have "list_all lowercase_word
      (dictionary (execute_insert_or_replace (tuple_row w cat u) s))"
    using Cons.prems(1) by (simp add: execute_insert_or_replace_def lowercase_insert_or_replace)
  from Cons.IH [OF this rec] show ?case .
qed

lemma add_multiple_entries_lowercase:
  "list_all lowercase_word (dictionary s) \<Longrightarrow>
   list_all lowercase_word (dictionary (snd (add_multiple_entries w cat entries s)))"
  unfolding add_multiple_entries_def
  by (rule with_conn_inv [where P = "\<lambda>s. list_all lowercase_word (dictionary s)"])
     (auto intro: add_multiple_loop_lowercase)

text \<open>
  C3. \<open>add_entry\<close> and \<open>add_multiple_entries\<close> store \<open>word.lower()\<close> (the two lemmas
  above), but \<open>import_dictionary\<close> binds \<open>entry["word"]\<close> as it comes: importing one row
  with the word "Kaneran" into a new database, in merge or in replace mode, stores
  "Kaneran", so a reachable store holds a word that is not lowercase. \<open>add_entry\<close> with
  the same arguments stores "kaneran".
\<close>

theorem import_dictionary_keeps_case:
  "reachable (snd (import_dictionary mixed_case_payload ''merge'' new_db)) \<and>
   map word (dictionary (snd (import_dictionary mixed_case_payload ''merge'' new_db)))
     = [PStr ''Kaneran''] \<and>
   map word (dictionary (snd (import_dictionary mixed_case_payload ''replace'' new_db)))
     = [PStr ''Kaneran''] \<and>
   \<not> list_all lowercase_word
       (dictionary (snd (import_dictionary mixed_case_payload ''merge'' new_db))) \<and>
   map word (dictionary (snd (add_entry ''Kaneran'' ''Species'' ''Noun'' ''An alien species.''
      ''Sci-fi context'' 1 new_db)))
     = [PStr ''kaneran'']"
proof -
  have "reachable (snd (import_dictionary mixed_case_payload ''merge'' new_db))"
    by (intro reachable.intros)
  then show ?thesis
    by (simp add: import_dictionary_def mixed_case_payload_def entry_params_def subscript_def
        add_entry_def with_conn_def execute_insert_or_replace_def insert_or_replace_def
        dictionary_new_db lowercase_word_def lower_Kaneran)
qed

subsection \<open>A malformed import\<close>

lemma entry_params_malformed:
  "malformed entry \<Longrightarrow> \<exists>k \<in> set required_fields. entry_params entry = Inl (KeyError k)"
  by (auto simp: malformed_def required_fields_def entry_params_def subscript_def
      split: option.splits)

lemma entry_params_not_malformed:
  "\<not> malformed entry \<Longrightarrow> \<exists>r. entry_params entry = Inr r"
  by (auto simp: malformed_def required_fields_def entry_params_def subscript_def
      split: option.splits)

lemma import_loop_malformed:
  "list_ex malformed data \<Longrightarrow>
   \<exists>k \<in> set required_fields. import_dictionary_loop data s = Inl (KeyError k)"
proof (induction data arbitrary: s)
  case Nil
  then show ?case by simp
next
  case (Cons entry es)
  show ?case
  proof (cases "malformed entry")
    case True
    from entry_params_malformed [OF this] show ?thesis by auto
  next
    case False
    from entry_params_not_malformed [OF this] obtain r where r: "entry_params entry = Inr r" ..
    from False Cons.prems have "list_ex malformed es" by simp
    from Cons.IH [OF this, of "execute_insert_or_replace r s"] r show ?thesis by simp
  qed
qed

text \<open>
  C4. When some row of the input lacks one of the keys word, category,
  part_of_speech, definition, context_hint, \<open>import_dictionary\<close> raises KeyError for
  such a key in either mode and leaves the store exactly as it was before the call:
  the rows imported before the malformed one and, in replace mode, the deletion of the
  old rows are rolled back.
\<close>

theorem import_dictionary_malformed_aborts:
  "list_ex malformed data \<Longrightarrow>
   \<exists>k \<in> set required_fields. import_dictionary data mode s = (Inl (KeyError k), s)"
proof -
  assume "list_ex malformed data"
  from import_loop_malformed [OF this,
      of "if mode = ''replace'' then s\<lparr>dictionary := []\<rparr> else s"]
  show ?thesis
    by (auto simp: import_dictionary_def with_conn_def)
qed

text \<open>
  The second row of \<open>broken_payload\<close> has no definition: the replace-mode import into
  the two-row store \<open>kaneran2\<close> raises KeyError and keeps both rows.
\<close>

theorem import_dictionary_malformed_aborts_witness:
  "list_ex malformed broken_payload \<and>
   import_dictionary broken_payload ''replace'' kaneran2
     = (Inl (KeyError ''definition''), kaneran2) \<and>
   length (dictionary kaneran2) = 2"
proof -
  have m: "list_ex malformed broken_payload"
    by (simp add: broken_payload_def malformed_def required_fields_def)
  have "import_dictionary_loop broken_payload (kaneran2\<lparr>dictionary := []\<rparr>)
      = Inl (KeyError ''definition'')"
    by (simp add: broken_payload_def entry_params_def subscript_def)
  then have "fst (import_dictionary broken_payload ''replace'' kaneran2)
      = Inl (KeyError ''definition'')"
    by (simp add: import_dictionary_def with_conn_def)
  moreover have "length (dictionary kaneran2) = 2"
    by (simp add: dictionary_kaneran2)
  ultimately show ?thesis
    using m import_dictionary_malformed_aborts [OF m, of "''replace''" kaneran2] by auto
qed

subsection \<open>Upsert\<close>



subsection \<open>Batch upsert\<close>

lemma unpack4_length: "length t = 4 \<Longrightarrow> unpack4 t = Inr (t ! 0, t ! 1, t ! 2, t ! 3)"
  by (cases t rule: unpack4.cases) simp_all

lemma unpack4_bad: "length t \<noteq> 4 \<Longrightarrow> unpack4 t = Inl ValueError"
  by (cases t rule: unpack4.cases) simp_all

lemma add_multiple_loop_ok:
  "list_all (\<lambda>t. length t = 4) entries \<Longrightarrow>
   add_multiple_loop w cat entries s
   = Inr (fold (\<lambda>t. execute_insert_or_replace (tuple_row w cat (t ! 0, t ! 1, t ! 2, t ! 3)))
            entries s)"
  by (induction entries arbitrary: s) (simp_all add: unpack4_length)

lemma add_multiple_loop_bad:
  "\<not> list_all (\<lambda>t. length t = 4) entries \<Longrightarrow>
   add_multiple_loop w cat entries s = Inl ValueError"
proof (induction entries arbitrary: s)
  case Nil
  then show ?case by simp
next
  case (Cons t ts)
  show ?case
  proof (cases "length t = 4")
    case True
    with Cons.prems have "\<not> list_all (\<lambda>t. length t = 4) ts" by simp
    from Cons.IH [OF this] True show ?thesis by (simp add: unpack4_length)
  next
    case False
    then show ?thesis by (simp add: unpack4_bad)
  qed
qed

text \<open>
  C6. \<open>add_multiple_entries\<close> is all or nothing. When every tuple has its four
  components, the call succeeds and the store is the one obtained by running the insert
  of each tuple in turn. Otherwise the unpacking of the first tuple of another length
  raises ValueError, and the store is exactly the one before the call, although the
  tuples before that one had been written inside the transaction.
\<close>

theorem add_multiple_entries_atomic:
  "add_multiple_entries w cat entries s =
     (if list_all (\<lambda>t. length t = 4) entries
      then (Inr (),
            fold (\<lambda>t. execute_insert_or_replace (tuple_row w cat (t ! 0, t ! 1, t ! 2, t ! 3)))
              entries s)
      else (Inl ValueError, s))"
  by (simp add: add_multiple_entries_def with_conn_def add_multiple_loop_ok add_multiple_loop_bad)

text \<open>
  The two senses of test_db.py are both written; when the second tuple lacks its sense
  number, neither is.
\<close>

theorem add_multiple_entries_atomic_witness:
  "dictionary (snd (add_multiple_entries ''Kaneran'' ''Species''
      [[PStr ''Noun'', PStr ''First meaning.'', PStr ''Context A'', PInt 1],
       [PStr ''Noun'', PStr ''Second meaning.'', PStr ''Context B'', PInt 2]] new_db))
   = [\<lparr>word = PStr ''kaneran'', category = PStr ''Species'', part_of_speech = PStr ''Noun'',
       definition_col = PStr ''First meaning.'', context_hint = PStr ''Context A'',
       sense_number = PInt 1\<rparr>,
      \<lparr>word = PStr ''kaneran'', category = PStr ''Species'', part_of_speech = PStr ''Noun'',
       definition_col = PStr ''Second meaning.'', context_hint = PStr ''Context B'',
       sense_number = PInt 2\<rparr>] \<and>
   add_multiple_entries ''Kaneran'' ''Species''
      [[PStr ''Noun'', PStr ''First meaning.'', PStr ''Context A'', PInt 1],
       [PStr ''Noun'', PStr ''Second meaning.'', PStr ''Context B'']] new_db
   = (Inl ValueError, new_db)"
  using add_multiple_entries_atomic [of "''Kaneran''" "''Species''"
      "[[PStr ''Noun'', PStr ''First meaning.'', PStr ''Context A'', PInt 1],
        [PStr ''Noun'', PStr ''Second meaning.'', PStr ''Context B'', PInt 2]]" new_db]
    add_multiple_entries_atomic [of "''Kaneran''" "''Species''"
      "[[PStr ''Noun'', PStr ''First meaning.'', PStr ''Context A'', PInt 1],
        [PStr ''Noun'', PStr ''Second meaning.'', PStr ''Context B'']]" new_db]
  by (simp add: tuple_row_def execute_insert_or_replace_def insert_or_replace_def row_key_def
      lower_Kaneran dictionary_new_db)

subsection \<open>Import in replace mode\<close>





subsection \<open>Renaming a context\<close>

lemma update_name_absent:
  "old \<notin> set rest \<Longrightarrow> update_name new old done rest = Inr (done @ rest)"
  by (induction rest arbitrary: "done") auto

lemma update_name_conflict:
  "old \<in> set rest \<Longrightarrow> new \<in> set done \<union> set rest \<Longrightarrow> old \<noteq> new \<Longrightarrow>
   update_name new old done rest = Inl IntegrityError"
proof (induction rest arbitrary: "done")
  case Nil
  then show ?case by simp
next
  case (Cons c rest)
  show ?case
  proof (cases "c = old")
    case True
    with Cons.prems show ?thesis by auto
  next
    case False
    with Cons.prems have "old \<in> set rest" and "new \<in> set (done @ [c]) \<union> set rest"
      by auto
    from Cons.IH [OF this Cons.prems(3)] False show ?thesis by simp
  qed
qed

lemma rename_context_dictionary:
  "dictionary (snd (rename_context old new s)) = dictionary s \<and>
   settings (snd (rename_context old new s)) = settings s"
  by (simp add: rename_context_def with_conn_def split: sum.splits)

text \<open>
  C8. \<open>rename_context(old, new)\<close> leaves every entry row as it was, the rows whose
  context hint is \<open>old\<close> included, and leaves the settings as they were, whether it
  succeeds or raises. When no context is named \<open>old\<close>, it succeeds and the whole store
  is unchanged.
\<close>

theorem rename_context_frame:
  "dictionary (snd (rename_context old new s)) = dictionary s \<and>
   settings (snd (rename_context old new s)) = settings s \<and>
   (old \<notin> set (contexts s) \<longrightarrow> rename_context old new s = (Inr (), s))"
proof -
  have "rename_context old new s = (Inr (), s)" if "old \<notin> set (contexts s)"
    using update_name_absent [OF that, of new "[]"]
    by (simp add: rename_context_def with_conn_def)
  then show ?thesis
    using rename_context_dictionary [of old new s] by simp
qed

text \<open>
  Renaming Galaxy to Universe renames the context and keeps the hint "Galaxy" of the
  entry; renaming a context that does not exist changes nothing.
\<close>

theorem rename_context_frame_witness:
  "map context_hint (dictionary (snd (rename_context ''Galaxy'' ''Universe'' galaxy_db)))
     = [PStr ''Galaxy''] \<and>
   contexts (snd (rename_context ''Galaxy'' ''Universe'' galaxy_db))
     = defaults @ [''Universe''] \<and>
   ''Nowhere'' \<notin> set (contexts galaxy_db) \<and>
   rename_context ''Nowhere'' ''Universe'' galaxy_db = (Inr (), galaxy_db)"
proof -
  have n: "''Nowhere'' \<notin> set (contexts galaxy_db)"
    by (simp add: contexts_galaxy_db defaults_def)
  have "contexts (snd (rename_context ''Galaxy'' ''Universe'' galaxy_db))
      = defaults @ [''Universe'']"
    by (simp add: rename_context_def with_conn_def contexts_galaxy_db defaults_def)
  then show ?thesis
    using n rename_context_frame [of "''Galaxy''" "''Universe''" galaxy_db]
      rename_context_frame [of "''Nowhere''" "''Universe''" galaxy_db]
    by (simp add: dictionary_galaxy_db)
qed

subsection \<open>Adding a context twice\<close>

text \<open>
  C9. \<open>add_context\<close> never raises, and a second \<open>add_context\<close> of the same name
  changes nothing. \<open>import_contexts\<close> in merge mode with the name twice in its
  payload does what one \<open>add_context\<close> does. Seeding the defaults again, or adding a
  default name after the seeding, changes nothing. When the context names of the store
  are distinct (as in every reachable store), the name is afterwards on exactly one row,
  and so is each default name after the seeding.
\<close>

theorem add_context_idempotent:
  "fst (add_context n s) = Inr () \<and>
   add_context n (snd (add_context n s)) = (Inr (), snd (add_context n s)) \<and>
   import_contexts [[''name'' \<mapsto> n], [''name'' \<mapsto> n]] ''merge'' s
     = (Inr (), snd (add_context n s)) \<and>
   prepopulate_contexts (init_db s) = (Inr (), init_db s) \<and>
   (n \<in> set defaults \<longrightarrow> add_context n (init_db s) = (Inr (), init_db s)) \<and>
   (distinct (contexts s) \<longrightarrow>
      count_list (contexts (snd (add_context n s))) n = 1 \<and>
      (\<forall>d \<in> set defaults. count_list (contexts (init_db s)) d = 1))"
proof -
  let ?s = "execute_insert_or_ignore n s"
  have a: "add_context n t = (Inr (), execute_insert_or_ignore n t)" for t
    by (simp add: add_context_def with_conn_def)
  have in1: "n \<in> set (contexts ?s)"
    by (simp add: contexts_execute_insert_or_ignore)
  have twice: "execute_insert_or_ignore n ?s = ?s"
    by (rule execute_insert_or_ignore_present [OF in1])
  have imp: "import_contexts [[''name'' \<mapsto> n], [''name'' \<mapsto> n]] ''merge'' s = (Inr (), ?s)"
    by (simp add: import_contexts_def with_conn_def subscript_def twice)
  have seeded: "set defaults \<subseteq> set (contexts (init_db s))"
    by (simp add: init_db_fold set_contexts_fold_ignore)
  have seed2: "prepopulate_contexts (init_db s) = (Inr (), init_db s)"
    by (simp add: prepopulate_contexts_def with_conn_def fold_ignore_present [OF seeded])
  have dflt: "add_context n (init_db s) = (Inr (), init_db s)" if "n \<in> set defaults"
    using that seeded by (simp add: a execute_insert_or_ignore_present subsetD)
  have one: "count_list (contexts ?s) n = 1" if "distinct (contexts s)"
    using that in1
    by (intro count_list_distinct)
       (simp_all add: execute_insert_or_ignore_def distinct_insert_or_ignore)
  have ones: "count_list (contexts (init_db s)) d = 1"
    if "distinct (contexts s)" "d \<in> set defaults" for d
    using that seeded
    by (intro count_list_distinct) (auto simp: init_db_fold distinct_contexts_fold_ignore)
  show ?thesis
    using imp seed2 dflt one ones by (simp add: a twice)
qed

text \<open>Galaxy added twice to a new database, and the default Planet added again.\<close>

theorem add_context_idempotent_witness:
  "distinct (contexts new_db) \<and> ''Planet'' \<in> set defaults \<and>
   add_context ''Galaxy'' (snd (add_context ''Galaxy'' new_db))
     = (Inr (), snd (add_context ''Galaxy'' new_db)) \<and>
   count_list (contexts (snd (add_context ''Galaxy'' new_db))) ''Galaxy'' = 1 \<and>
   add_context ''Planet'' (init_db new_db) = (Inr (), init_db new_db) \<and>
   count_list (contexts (init_db new_db)) ''Planet'' = 1"
proof -
  have d: "distinct (contexts new_db)"
    by (simp add: contexts_new_db defaults_def)
  have p: "''Planet'' \<in> set defaults"
    by (simp add: defaults_def)
  show ?thesis
    using d p add_context_idempotent [of "''Galaxy''" new_db]
      add_context_idempotent [of "''Planet''" new_db]
    by simp
qed

subsection \<open>Renaming a context to a name in use\<close>

text \<open>
  C10. When \<open>old\<close> and \<open>new\<close> are two different names that are both in the contexts
  table, \<open>rename_context(old, new)\<close> raises IntegrityError and the store is the one
  before the call: \<open>old\<close> is still a context, and when the names of the table are
  distinct (as in every reachable store) exactly one row is named \<open>new\<close>.
\<close>

theorem rename_context_conflict:
  assumes "old \<in> set (contexts s)" and "new \<in> set (contexts s)" and "old \<noteq> new"
  shows "rename_context old new s = (Inl IntegrityError, s) \<and>
         old \<in> set (contexts (snd (rename_context old new s))) \<and>
         (distinct (contexts s) \<longrightarrow>
            count_list (contexts (snd (rename_context old new s))) new = 1)"
proof -
  have "update_name new old [] (contexts s) = Inl IntegrityError"
    using assms by (intro update_name_conflict) auto
  then have r: "rename_context old new s = (Inl IntegrityError, s)"
    by (simp add: rename_context_def with_conn_def)
  show ?thesis
    using r assms(1,2) by (simp add: count_list_distinct)
qed

text \<open>Renaming the default Species to the default Planet in a new database.\<close>

theorem rename_context_conflict_witness:
  "''Species'' \<in> set (contexts new_db) \<and> ''Planet'' \<in> set (contexts new_db) \<and>
   distinct (contexts new_db) \<and>
   rename_context ''Species'' ''Planet'' new_db = (Inl IntegrityError, new_db) \<and>
   count_list (contexts (snd (rename_context ''Species'' ''Planet'' new_db))) ''Planet'' = 1"
proof -
  have a: "''Species'' \<in> set (contexts new_db)" and b: "''Planet'' \<in> set (contexts new_db)"
    and d: "distinct (contexts new_db)"
    by (simp_all add: contexts_new_db defaults_def)
  have c: "''Species'' \<noteq> ''Planet''" by simp
  show ?thesis
    using a b d rename_context_conflict [OF a b c] by auto
qed

end
